theory Spec2Isabelle
  imports Complex_Main "HOL-Library.AList"
begin

section \<open>Values, exceptions and backends\<close>

text \<open>
  The exceptions that \<^verbatim>\<open>ixdat/db.py\<close> raises itself (\<^verbatim>\<open>NotImplementedError\<close>,
  \<^verbatim>\<open>DataBaseError\<close>, \<^verbatim>\<open>ValueError\<close>), the ones Python raises for it
  (\<^verbatim>\<open>IndexError\<close>, \<^verbatim>\<open>TypeError\<close>, \<^verbatim>\<open>AttributeError\<close>, \<^verbatim>\<open>KeyError\<close>,
  \<^verbatim>\<open>RecursionError\<close>), and whatever a storage backend raises from its own code
  (\<open>BackendFailure\<close>).
\<close>

datatype pyerror =
    NotImplementedError
  | DataBaseError
  | ValueError
  | IndexError
  | TypeError
  | AttributeError
  | KeyError
  | RecursionError
  | BackendFailure string

text \<open>
  Attribute values: \<^verbatim>\<open>None\<close>, integers, floats, strings, lists, and numeric arrays
  (a list of floats). A float is a real number; \<^verbatim>\<open>nan\<close> and the infinities are not
  represented.
\<close>

datatype pyval =
    PNone
  | PInt int
  | PFloat real
  | PStr string
  | PList "pyval list"
  | PArray "real list"

type_synonym kwargs = "(string \<times> pyval) list"

text \<open>
  A backend object, as far as \<^verbatim>\<open>db.py\<close> looks at it: its identity as a Python
  object (\<^verbatim>\<open>is\<close> compares \<open>ident\<close>), and the attributes \<^verbatim>\<open>name\<close> (\<open>b_name\<close>),
  \<^verbatim>\<open>backend_type\<close> and \<^verbatim>\<open>address\<close>.
\<close>

record backend =
  ident :: nat
  b_name :: string
  backend_type :: string
  address :: string

text \<open>
  Where Python passes either a backend or a string (\<^verbatim>\<open>isinstance(x, str)\<close>), the model
  passes a \<open>backend_val\<close>; \<^verbatim>\<open>None\<close> is \<open>None\<close> of the option type. Truthiness is
  Python's: \<^verbatim>\<open>None\<close> and the empty string are false, every object is true.
\<close>

datatype backend_val = BackendObj backend | BackendStr string

fun truthy :: "backend_val option \<Rightarrow> bool" where
  "truthy None = False"
| "truthy (Some (BackendStr s)) = (s \<noteq> [])"
| "truthy (Some (BackendObj b)) = True"

text \<open>
  The module \<^verbatim>\<open>ixdat.backends\<close> is imported, not defined, by \<^verbatim>\<open>db.py\<close>: its two
  tables are parameters of the model. \<^verbatim>\<open>database_backends\<close> maps a name to a ready
  instance, \<^verbatim>\<open>BACKEND_CLASSES\<close> maps a name to a class, called with keyword arguments.
\<close>

record registry =
  database_backends :: "string \<rightharpoonup> backend"
  BACKEND_CLASSES :: "string \<rightharpoonup> (kwargs \<Rightarrow> backend)"

section \<open>The DataBase facade\<close>

text \<open>
  \<^verbatim>\<open>DB = DataBase()\<close> is one object for the whole process; its two attributes are the
  state every function below passes along. A function that can raise returns the result
  or the exception together with the state it leaves behind.
\<close>

record DataBase =
  backend :: backend
  new_object_backend :: string

definition DataBase_init :: "registry \<Rightarrow> backend option \<Rightarrow> pyerror + DataBase" where
  "DataBase_init reg b =
     (case b of
        Some b' \<Rightarrow> Inr \<lparr>backend = b', new_object_backend = ''none''\<rparr>
      | None \<Rightarrow>
          (case database_backends reg ''directory'' of
             None \<Rightarrow> Inl KeyError
           | Some d \<Rightarrow> Inr \<lparr>backend = d, new_object_backend = ''none''\<rparr>))"

definition set_backend ::
  "registry \<Rightarrow> DataBase \<Rightarrow> backend_val \<Rightarrow> kwargs \<Rightarrow> (pyerror + backend) \<times> DataBase" where
  "set_backend reg db backend_name db_kwargs =
     (case backend_name of
        BackendObj b \<Rightarrow> (Inr b, db\<lparr>backend := b\<rparr>)
      | BackendStr s \<Rightarrow>
          (case BACKEND_CLASSES reg s of
             Some BackendClass \<Rightarrow>
               (let b = BackendClass db_kwargs in (Inr b, db\<lparr>backend := b\<rparr>))
           | None \<Rightarrow> (Inl NotImplementedError, db)))"

text \<open>
  \<^verbatim>\<open>backend.get(cls, i)\<close> runs code of the backend: a parameter, which may raise and
  may itself touch the facade.
\<close>

type_synonym 'o backend_get =
  "backend \<Rightarrow> string \<Rightarrow> int \<Rightarrow> DataBase \<Rightarrow> (pyerror + 'o) \<times> DataBase"

definition DataBase_get ::
  "'o backend_get \<Rightarrow> DataBase \<Rightarrow> string \<Rightarrow> int \<Rightarrow> backend option \<Rightarrow> (pyerror + 'o) \<times> DataBase" where
  "DataBase_get bget db cls i b =
     (let b' = (case b of Some x \<Rightarrow> x | None \<Rightarrow> backend db) in bget b' cls i db)"

text \<open>
  The classmethod \<^verbatim>\<open>Saveable.get\<close>: remember the active backend, switch, get, switch
  back. There is no \<^verbatim>\<open>try\<close>: an exception leaves at the statement that raised it.
\<close>

definition Saveable_get ::
  "registry \<Rightarrow> 'o backend_get \<Rightarrow> DataBase \<Rightarrow> string \<Rightarrow> int \<Rightarrow> backend_val option
     \<Rightarrow> (pyerror + 'o) \<times> DataBase" where
  "Saveable_get reg bget db cls i b =
     (let old_backend = backend db;
          requested = (if truthy b then the b else BackendObj old_backend)
      in case set_backend reg db requested [] of
           (Inl e, db1) \<Rightarrow> (Inl e, db1)
         | (Inr _, db1) \<Rightarrow>
             (case DataBase_get bget db1 cls i None of
                (Inl e, db2) \<Rightarrow> (Inl e, db2)
              | (Inr obj, db2) \<Rightarrow>
                  (case set_backend reg db2 (BackendObj old_backend) [] of
                     (Inl e, db3) \<Rightarrow> (Inl e, db3)
                   | (Inr _, db3) \<Rightarrow> (Inr obj, db3))))"

text \<open>
  The decorator \<^verbatim>\<open>with_memory\<close>: the wrapped function is any code that runs on the
  facade's state and returns or raises.
\<close>

definition with_memory ::
  "(DataBase \<Rightarrow> (pyerror + 'a) \<times> DataBase) \<Rightarrow> DataBase \<Rightarrow> (pyerror + 'a) \<times> DataBase" where
  "with_memory function db =
     (case function (db\<lparr>new_object_backend := ''memory''\<rparr>) of
        (Inl e, db1) \<Rightarrow> (Inl e, db1)
      | (Inr to_return, db1) \<Rightarrow> (Inr to_return, db1\<lparr>new_object_backend := ''none''\<rparr>))"

section \<open>Columns, owned object lists and class declarations\<close>

text \<open>
  \<^verbatim>\<open>Column\<close> and \<^verbatim>\<open>OwnedObjectList\<close> hold what their constructors store. A
  \<^verbatim>\<open>ctype\<close> is a Python type, here its name. \<^verbatim>\<open>foreign_key\<close> is \<^verbatim>\<open>False\<close>
  (\<open>None\<close>) or a pair of a table name and a column name.
\<close>

record Column =
  name :: string
  ctype :: string
  attribute_name :: string
  foreign_key :: "(string \<times> string) option"

definition Column_init ::
  "string \<Rightarrow> string \<Rightarrow> string option \<Rightarrow> (string \<times> string) option \<Rightarrow> Column" where
  "Column_init n t a fk =
     \<lparr>name = n, ctype = t,
      attribute_name = (case a of None \<Rightarrow> n | Some a' \<Rightarrow> if a' = [] then n else a'),
      foreign_key = fk\<rparr>"

record OwnedObjectList =
  list_name :: string
  owned_object_table_name :: string
  joining_table_name :: string
  parent_object_id_column_name :: "string option"
  owned_object_id_column_name :: "string option"

text \<open>
  A class statement \<^verbatim>\<open>class C(B1, ..., Bn): ...\<close> leaves a class with its bases, the
  linearisation Python computed for it (\<^verbatim>\<open>C.mro()\<close>, the class itself first), and the
  attributes its body assigns: \<open>None\<close> for an attribute the body does not mention.
  Classes are known by name. \<^verbatim>\<open>Saveable\<close> and \<^verbatim>\<open>object\<close> are not in the table:
  what \<^verbatim>\<open>Saveable\<close> declares (\<^verbatim>\<open>table_name = None\<close>, \<^verbatim>\<open>columns = []\<close>,
  \<^verbatim>\<open>owned_object_lists = []\<close>) is what a lookup finds when it reaches \<^verbatim>\<open>Saveable\<close>.
\<close>

record class_decl =
  mro :: "string list"
  bases :: "string list"
  decl_table_name :: "string option option"
  decl_columns :: "Column list option"
  decl_owned_object_lists :: "OwnedObjectList list option"
  SKIP_IN_TABLE_SCAN :: bool

type_synonym class_table = "string \<rightharpoonup> class_decl"

definition mro_of :: "class_table \<Rightarrow> string \<Rightarrow> string list" where
  "mro_of ct c =
     (case ct c of
        Some d \<Rightarrow> mro d
      | None \<Rightarrow>
          if c = ''Saveable'' then [''Saveable'', ''object'']
          else if c = ''object'' then [''object'']
          else [])"

definition issubclass :: "class_table \<Rightarrow> string \<Rightarrow> string \<Rightarrow> bool" where
  "issubclass ct a b = (b \<in> set (mro_of ct a))"

text \<open>
  Attribute lookup on a class follows the linearisation and ends at the first class whose
  body assigns the attribute; \<^verbatim>\<open>Saveable\<close> assigns all three. \<open>has_class_attr\<close> says
  whether the lookup finds anything (\<^verbatim>\<open>AttributeError\<close> otherwise), \<open>class_attr\<close>
  what it finds.
\<close>

fun has_class_attr :: "class_table \<Rightarrow> (class_decl \<Rightarrow> 'a option) \<Rightarrow> string list \<Rightarrow> bool" where
  "has_class_attr ct decl [] = False"
| "has_class_attr ct decl (c # cs) =
     (if c = ''Saveable'' then True
      else
        (case ct c of
           None \<Rightarrow> has_class_attr ct decl cs
         | Some d \<Rightarrow> (case decl d of Some v \<Rightarrow> True | None \<Rightarrow> has_class_attr ct decl cs)))"

fun class_attr :: "class_table \<Rightarrow> (class_decl \<Rightarrow> 'a option) \<Rightarrow> 'a \<Rightarrow> string list \<Rightarrow> 'a" where
  "class_attr ct decl dflt [] = dflt"
| "class_attr ct decl dflt (c # cs) =
     (if c = ''Saveable'' then dflt
      else
        (case ct c of
           None \<Rightarrow> class_attr ct decl dflt cs
         | Some d \<Rightarrow> (case decl d of Some v \<Rightarrow> v | None \<Rightarrow> class_attr ct decl dflt cs)))"

definition table_name :: "class_table \<Rightarrow> string \<Rightarrow> string option" where
  "table_name ct c = class_attr ct decl_table_name None (mro_of ct c)"

definition columns :: "class_table \<Rightarrow> string \<Rightarrow> Column list" where
  "columns ct c = class_attr ct decl_columns [] (mro_of ct c)"

definition owned_object_lists :: "class_table \<Rightarrow> string \<Rightarrow> OwnedObjectList list" where
  "owned_object_lists ct c = class_attr ct decl_owned_object_lists [] (mro_of ct c)"

definition column_names :: "class_table \<Rightarrow> string \<Rightarrow> string list" where
  "column_names ct c = map name (columns ct c)"

text \<open>
  \<^verbatim>\<open>SaveableMetaClass.__new__\<close>: the checks run when a class statement is executed,
  after the class object exists. \<^verbatim>\<open>getattr(new_cls, "table_name")\<close> and, in the loop
  over the bases, \<^verbatim>\<open>base_class.table_name\<close> are attribute lookups, which raise when no
  class of the linearisation assigns \<^verbatim>\<open>table_name\<close>. The set
  \<^verbatim>\<open>ALL_SAVABLE_CLASSES\<close>, which nothing in \<^verbatim>\<open>db.py\<close> reads, is left out.
\<close>

fun check_bases :: "class_table \<Rightarrow> string option \<Rightarrow> string list \<Rightarrow> pyerror + unit" where
  "check_bases ct tn [] = Inr ()"
| "check_bases ct tn (base_class # rest) =
     (if \<not> has_class_attr ct decl_table_name (mro_of ct base_class) then Inl AttributeError
      else if tn = table_name ct base_class then Inl ValueError
      else check_bases ct tn rest)"

definition SaveableMetaClass_new ::
  "class_table \<Rightarrow> string \<Rightarrow> class_decl \<Rightarrow> pyerror + class_table" where
  "SaveableMetaClass_new ct cname attrs =
     (let ct' = ct(cname \<mapsto> attrs) in
      if \<not> has_class_attr ct' decl_table_name (mro_of ct' cname) then Inl AttributeError
      else if table_name ct' cname \<notin> {None, Some []} \<and> \<not> SKIP_IN_TABLE_SCAN attrs then
        (if decl_columns attrs \<notin> {None, Some []} then
           (case decl_table_name attrs of
              None \<Rightarrow> Inl ValueError
            | Some tn \<Rightarrow>
                (case check_bases ct' tn (bases attrs) of
                   Inl e \<Rightarrow> Inl e
                 | Inr _ \<Rightarrow> Inr ct'))
         else Inr ct')
      else Inr ct')"

text \<open>
  \<^verbatim>\<open>get_column_resolution_order\<close>: the \<^verbatim>\<open>for ... else\<close> over the list built so far
  inserts the class before the first class that descends from it, or appends it.
\<close>

fun cro_insert :: "class_table \<Rightarrow> string \<Rightarrow> string list \<Rightarrow> string list" where
  "cro_insert ct cls_in_mro [] = [cls_in_mro]"
| "cro_insert ct cls_in_mro (cls_in_cro # rest) =
     (if issubclass ct cls_in_cro cls_in_mro then cls_in_mro # cls_in_cro # rest
      else cls_in_cro # cro_insert ct cls_in_mro rest)"

definition get_column_resolution_order :: "class_table \<Rightarrow> string \<Rightarrow> string list" where
  "get_column_resolution_order ct cls =
     foldl (\<lambda>cro_class_list cls_in_mro.
              if \<not> issubclass ct cls_in_mro ''Saveable'' then cro_class_list
              else if cls_in_mro = ''Saveable'' then cro_class_list
              else cro_insert ct cls_in_mro cro_class_list)
           [] (mro_of ct cls)"

text \<open>
  \<^verbatim>\<open>get_full_columns\<close>. The dictionary \<^verbatim>\<open>table_classes\<close> is a list of pairs, keyed by
  table name (which may be \<^verbatim>\<open>None\<close>). The inner loop either skips a column, raises, or
  appends it.
\<close>

definition refers_to_included ::
  "class_table \<Rightarrow> (string option \<times> string) list \<Rightarrow> Column \<Rightarrow> bool" where
  "refers_to_included ct table_classes column =
     (case foreign_key column of
        None \<Rightarrow> False
      | Some (t, c) \<Rightarrow>
          (case map_of table_classes (Some t) of
             None \<Rightarrow> False
           | Some k \<Rightarrow> c \<in> set (column_names ct k)))"

fun add_columns ::
  "class_table \<Rightarrow> (string option \<times> string) list \<Rightarrow> Column list \<Rightarrow> Column list \<times> string list
     \<Rightarrow> pyerror + Column list \<times> string list" where
  "add_columns ct table_classes [] acc = Inr acc"
| "add_columns ct table_classes (column # rest) (full_column_list, full_saved_attribute_list) =
     (let attr = attribute_name column in
      if attr \<in> set full_saved_attribute_list then
        (if refers_to_included ct table_classes column
         then add_columns ct table_classes rest (full_column_list, full_saved_attribute_list)
         else Inl ValueError)
      else add_columns ct table_classes rest
             (full_column_list @ [column], full_saved_attribute_list @ [attr]))"

fun full_columns_loop ::
  "class_table \<Rightarrow> string list \<Rightarrow> Column list \<times> string list \<Rightarrow> (string option \<times> string) list
     \<Rightarrow> pyerror + Column list" where
  "full_columns_loop ct [] (full_column_list, full_saved_attribute_list) table_classes =
     Inr full_column_list"
| "full_columns_loop ct (parent_class # rest) acc table_classes =
     (if table_name ct parent_class \<in> fst ` set table_classes
      then full_columns_loop ct rest acc table_classes
      else
        (let table_classes' = table_classes @ [(table_name ct parent_class, parent_class)] in
         case add_columns ct table_classes' (columns ct parent_class) acc of
           Inl e \<Rightarrow> Inl e
         | Inr acc' \<Rightarrow> full_columns_loop ct rest acc' table_classes'))"

definition get_full_columns :: "class_table \<Rightarrow> string \<Rightarrow> pyerror + Column list" where
  "get_full_columns ct cls =
     full_columns_loop ct (get_column_resolution_order ct cls) ([], []) []"

fun add_owned_object_lists ::
  "OwnedObjectList list \<Rightarrow> OwnedObjectList list \<times> string list
     \<Rightarrow> pyerror + OwnedObjectList list \<times> string list" where
  "add_owned_object_lists [] acc = Inr acc"
| "add_owned_object_lists (owned_object_list # rest)
       (full_owned_object_list, full_linking_attribute_list) =
     (let attr = list_name owned_object_list in
      if attr \<in> set full_linking_attribute_list then Inl ValueError
      else add_owned_object_lists rest
             (full_owned_object_list @ [owned_object_list], full_linking_attribute_list @ [attr]))"

fun full_owned_object_lists_loop ::
  "class_table \<Rightarrow> string list \<Rightarrow> OwnedObjectList list \<times> string list
     \<Rightarrow> (string option \<times> string) list \<Rightarrow> pyerror + OwnedObjectList list" where
  "full_owned_object_lists_loop ct []
       (full_owned_object_list, full_linking_attribute_list) table_classes =
     Inr full_owned_object_list"
| "full_owned_object_lists_loop ct (parent_class # rest) acc table_classes =
     (if table_name ct parent_class \<in> fst ` set table_classes
      then full_owned_object_lists_loop ct rest acc table_classes
      else
        (let table_classes' = table_classes @ [(table_name ct parent_class, parent_class)] in
         case add_owned_object_lists (owned_object_lists ct parent_class) acc of
           Inl e \<Rightarrow> Inl e
         | Inr acc' \<Rightarrow> full_owned_object_lists_loop ct rest acc' table_classes'))"

definition get_full_owned_object_lists ::
  "class_table \<Rightarrow> string \<Rightarrow> pyerror + OwnedObjectList list" where
  "get_full_owned_object_lists ct cls =
     full_owned_object_lists_loop ct (get_column_resolution_order ct cls) ([], []) []"

text \<open>
  The two declarations of the scenario: \<^verbatim>\<open>Parent(Saveable)\<close> with table
  \<^verbatim>\<open>"parent"\<close> and one column, and \<^verbatim>\<open>Child(Parent)\<close> with table \<^verbatim>\<open>"child"\<close> and the
  owned object list \<^verbatim>\<open>"items"\<close>. What the body of \<^verbatim>\<open>Child\<close> says about
  \<^verbatim>\<open>columns\<close> is the parameter \<open>child_columns\<close>: \<open>Some []\<close> for \<^verbatim>\<open>columns = []\<close>,
  \<open>None\<close> when the body has no such line.
\<close>

definition items :: OwnedObjectList where
  "items = \<lparr>list_name = ''items'', owned_object_table_name = ''item'',
            joining_table_name = ''child_item'', parent_object_id_column_name = None,
            owned_object_id_column_name = None\<rparr>"

definition Parent :: "Column \<Rightarrow> class_decl" where
  "Parent c = \<lparr>mro = [''Parent'', ''Saveable'', ''object''], bases = [''Saveable''],
               decl_table_name = Some (Some ''parent''), decl_columns = Some [c],
               decl_owned_object_lists = None, SKIP_IN_TABLE_SCAN = False\<rparr>"

definition Child :: "Column list option \<Rightarrow> class_decl" where
  "Child child_columns =
     \<lparr>mro = [''Child'', ''Parent'', ''Saveable'', ''object''], bases = [''Parent''],
      decl_table_name = Some (Some ''child''), decl_columns = child_columns,
      decl_owned_object_lists = Some [items], SKIP_IN_TABLE_SCAN = False\<rparr>"

definition scenario :: "Column \<Rightarrow> Column list option \<Rightarrow> class_table" where
  "scenario c child_columns = [''Parent'' \<mapsto> Parent c, ''Child'' \<mapsto> Child child_columns]"

section \<open>Saveable objects\<close>

text \<open>
  An attribute that a class body may leave out, set to \<^verbatim>\<open>None\<close>, or give a value.
\<close>

datatype 'a class_attribute = Undeclared | DeclaredNone | Declared 'a

text \<open>
  The class of an instance, as the instance methods read it: its name, its table name,
  and the four attributes that \<^verbatim>\<open>as_dict\<close> and \<^verbatim>\<open>__eq__\<close> read from \<^verbatim>\<open>self\<close> and
  that \<^verbatim>\<open>Saveable\<close> itself does not declare. \<^verbatim>\<open>column_attrs\<close> lists attribute
  names; \<^verbatim>\<open>extra_column_attrs\<close> maps a table name to attribute names;
  \<^verbatim>\<open>extra_linkers\<close> maps a table name to a pair of a linked table name and the name
  of an attribute of ids; \<^verbatim>\<open>child_attrs\<close> lists the names of the lists of owned
  objects. Dictionaries are lists of pairs with distinct keys, in insertion order.
\<close>

record entity_class =
  class_name :: string
  class_table_name :: "string option"
  column_attrs :: "string list class_attribute"
  extra_column_attrs :: "(string \<times> string list) list class_attribute"
  extra_linkers :: "(string \<times> string \<times> string) list class_attribute"
  child_attrs :: "string list class_attribute"

text \<open>
  An instance after \<^verbatim>\<open>__init__\<close>: its identity as a Python object (\<open>oid\<close>), its
  class, \<^verbatim>\<open>_backend\<close> and \<^verbatim>\<open>_id\<close>, the values \<^verbatim>\<open>getattr\<close> finds under the names
  of scalar attributes, and the lists of owned objects it finds under the names of
  \<^verbatim>\<open>child_attrs\<close>. The owned objects are Saveable objects themselves.
\<close>

datatype entity =
  Entity (oid: nat) (cls: entity_class) (priv_backend: "backend_val option")
    (priv_id: "int option") (attrs: "(string \<times> pyval) list")
    (child_lists: "(string \<times> entity list) list")

definition set_priv_backend :: "entity \<Rightarrow> backend_val option \<Rightarrow> entity" where
  "set_priv_backend e b = Entity (oid e) (cls e) b (priv_id e) (attrs e) (child_lists e)"

definition set_priv_id :: "entity \<Rightarrow> int option \<Rightarrow> entity" where
  "set_priv_id e i = Entity (oid e) (cls e) (priv_backend e) i (attrs e) (child_lists e)"

text \<open>
  Beside \<^verbatim>\<open>DB\<close>, the session holds what the backends count and what was printed.

  Modelled from the spec: \<^verbatim>\<open>get_next_available_id\<close> is code of the backends, which
  is not in \<^verbatim>\<open>db.py\<close>. The spec has it count against a counter scoped per table name,
  and the docstring of \<^verbatim>\<open>Saveable\<close> has the memory backend count the objects of each
  table starting with 1. \<open>last_id\<close> is the last id a backend (by \<open>ident\<close>) handed out
  for a table.
\<close>

record session =
  DB :: DataBase
  last_id :: "nat \<times> string option \<Rightarrow> nat"
  printed :: "string list"

definition get_next_available_id ::
  "session \<Rightarrow> backend \<Rightarrow> string option \<Rightarrow> int \<times> session" where
  "get_next_available_id s b tn =
     (let i = Suc (last_id s (ident b, tn))
      in (int i, s\<lparr>last_id := (last_id s)((ident b, tn) := i)\<rparr>))"

text \<open>
  The property \<^verbatim>\<open>backend\<close>: a false \<^verbatim>\<open>_backend\<close> is replaced by
  \<^verbatim>\<open>database_backends["none"]\<close> and stored.
\<close>

definition Saveable_backend :: "registry \<Rightarrow> entity \<Rightarrow> (pyerror + backend_val) \<times> entity" where
  "Saveable_backend reg self =
     (if \<not> truthy (priv_backend self) then
        (case database_backends reg ''none'' of
           None \<Rightarrow> (Inl KeyError, self)
         | Some nb \<Rightarrow> (Inr (BackendObj nb), set_priv_backend self (Some (BackendObj nb))))
      else (Inr (the (priv_backend self)), self))"

text \<open>
  The property \<^verbatim>\<open>id\<close>. \<^verbatim>\<open>not self._id\<close> holds for \<^verbatim>\<open>None\<close> and for 0. The
  property reads \<^verbatim>\<open>self.backend\<close> for \<^verbatim>\<open>backend_type\<close> and again for
  \<^verbatim>\<open>get_next_available_id\<close>; the second read returns what the first one stored. A
  string has no \<^verbatim>\<open>backend_type\<close>. In the last branch the argument of
  \<^verbatim>\<open>DataBaseError\<close> is an f-string that formats \<^verbatim>\<open>self\<close>: \<^verbatim>\<open>Saveable.__repr__\<close>
  reads \<^verbatim>\<open>self.id\<close>, which finds the object as before and comes to the same
  statement again. The exception is never built; Python ends the nesting with
  \<^verbatim>\<open>RecursionError\<close>.
\<close>

definition Saveable_id ::
  "registry \<Rightarrow> session \<Rightarrow> entity \<Rightarrow> (pyerror + int) \<times> entity \<times> session" where
  "Saveable_id reg s self =
     (if priv_id self \<noteq> None \<and> priv_id self \<noteq> Some 0 then (Inr (the (priv_id self)), self, s)
      else
        (case Saveable_backend reg self of
           (Inl e, self1) \<Rightarrow> (Inl e, self1, s)
         | (Inr (BackendStr x), self1) \<Rightarrow> (Inl AttributeError, self1, s)
         | (Inr (BackendObj b), self1) \<Rightarrow>
             if backend_type b = ''none'' \<or> backend_type b = ''memory'' then
               (let (i, s1) = get_next_available_id s b (class_table_name (cls self1))
                in (Inr i, set_priv_id self1 (Some i), s1))
             else (Inl RecursionError, self1, s)))"

text \<open>
  \<^verbatim>\<open>Saveable.__repr__\<close> formats the class name, \<^verbatim>\<open>self.id\<close> and \<^verbatim>\<open>self.name\<close>. The
  model keeps what it does to the state: it reads the property \<^verbatim>\<open>id\<close>.
\<close>

definition Saveable_repr ::
  "registry \<Rightarrow> session \<Rightarrow> entity \<Rightarrow> (pyerror + int) \<times> entity \<times> session" where
  "Saveable_repr reg s self = Saveable_id reg s self"

text \<open>
  The setter of \<^verbatim>\<open>backend\<close>. In the last branch \<^verbatim>\<open>print\<close> formats \<^verbatim>\<open>self\<close> before
  \<^verbatim>\<open>_backend\<close> is assigned; \<open>printed\<close> records the string the warning is about.
\<close>

definition Saveable_backend_setter ::
  "registry \<Rightarrow> session \<Rightarrow> entity \<Rightarrow> backend_val option \<Rightarrow> (pyerror + unit) \<times> entity \<times> session" where
  "Saveable_backend_setter reg s self new_backend =
     (let new_backend1 =
            (if truthy new_backend then the new_backend
             else BackendStr (new_object_backend (DB s)))
      in case new_backend1 of
           BackendObj b \<Rightarrow> (Inr (), set_priv_backend self (Some (BackendObj b)), s)
         | BackendStr x \<Rightarrow>
             (case database_backends reg x of
                Some b \<Rightarrow> (Inr (), set_priv_backend self (Some (BackendObj b)), s)
              | None \<Rightarrow>
                  (case BACKEND_CLASSES reg x of
                     Some BackendClass \<Rightarrow>
                       (Inr (), set_priv_backend self (Some (BackendObj (BackendClass []))), s)
                   | None \<Rightarrow>
                       (case Saveable_repr reg s self of
                          (Inl e, self1, s1) \<Rightarrow> (Inl e, self1, s1)
                        | (Inr _, self1, s1) \<Rightarrow>
                            (Inr (), set_priv_backend self1 (Some (BackendStr x)),
                             s1\<lparr>printed := printed s1 @ [x]\<rparr>)))))"

section \<open>Placeholders\<close>

text \<open>
  A class object, as \<^verbatim>\<open>fill_object_list\<close> passes it on: a Saveable class, or the
  class \<^verbatim>\<open>PlaceHolderObject\<close> itself (the \<^verbatim>\<open>__class__\<close> of a placeholder).
\<close>

datatype pyclass = SaveableClass entity_class | PlaceHolderObjectClass

record PlaceHolderObject =
  ph_id :: int
  ph_cls :: pyclass
  ph_backend :: backend_val

text \<open>
  \<^verbatim>\<open>PlaceHolderObject.__init__\<close>. A backend object is not equal to the string
  \<^verbatim>\<open>"none"\<close>; \<^verbatim>\<open>is\<close> compares the identity of objects, and a string is not the
  registered backend.
\<close>

definition PlaceHolderObject_init ::
  "registry \<Rightarrow> session \<Rightarrow> int \<Rightarrow> pyclass \<Rightarrow> backend_val option \<Rightarrow> pyerror + PlaceHolderObject" where
  "PlaceHolderObject_init reg s i c b =
     (let b1 = (if \<not> truthy b then BackendObj (backend (DB s)) else the b) in
      if \<not> truthy (Some b1) \<or> b1 = BackendStr ''none'' then Inl DataBaseError
      else
        (case database_backends reg ''none'' of
           None \<Rightarrow> Inl KeyError
         | Some nb \<Rightarrow>
             if (case b1 of BackendObj x \<Rightarrow> ident x = ident nb | BackendStr x \<Rightarrow> False)
             then Inl DataBaseError
             else Inr \<lparr>ph_id = i, ph_cls = c, ph_backend = b1\<rparr>))"

datatype obj = Ent entity | PH PlaceHolderObject

text \<open>An element of \<^verbatim>\<open>obj_ids\<close>: an \<^verbatim>\<open>int\<close>, or a pair of a backend and an id.\<close>

datatype identity = IdInt int | IdPair "backend_val option" int

fun class_of :: "obj \<Rightarrow> pyclass" where
  "class_of (Ent e) = SaveableClass (cls e)"
| "class_of (PH p) = PlaceHolderObjectClass"

text \<open>
  \<^verbatim>\<open>[s.id for s in object_list]\<close> reads the property \<^verbatim>\<open>id\<close> of every Saveable
  object in turn, which may assign an id or raise. The function returns the ids, the
  objects as the reads leave them, and the session.
\<close>

fun provided_ids ::
  "registry \<Rightarrow> session \<Rightarrow> obj list \<Rightarrow> (pyerror + int list \<times> obj list) \<times> session" where
  "provided_ids reg s [] = (Inr ([], []), s)"
| "provided_ids reg s (PH p # rest) =
     (case provided_ids reg s rest of
        (Inl e, s1) \<Rightarrow> (Inl e, s1)
      | (Inr (ids, objs), s1) \<Rightarrow> (Inr (ph_id p # ids, PH p # objs), s1))"
| "provided_ids reg s (Ent x # rest) =
     (case Saveable_id reg s x of
        (Inl e, x1, s1) \<Rightarrow> (Inl e, s1)
      | (Inr i, x1, s1) \<Rightarrow>
          (case provided_ids reg s1 rest of
             (Inl e, s2) \<Rightarrow> (Inl e, s2)
           | (Inr (ids, objs), s2) \<Rightarrow> (Inr (i # ids, Ent x1 # objs), s2)))"

fun append_placeholders ::
  "registry \<Rightarrow> session \<Rightarrow> pyclass \<Rightarrow> int list \<Rightarrow> identity list \<Rightarrow> obj list \<Rightarrow> pyerror + obj list" where
  "append_placeholders reg s c provided_series_ids [] object_list = Inr object_list"
| "append_placeholders reg s c provided_series_ids (identity # rest) object_list =
     (let (b, i) = (case identity of
                      IdInt i \<Rightarrow> (Some (BackendObj (backend (DB s))), i)
                    | IdPair b i \<Rightarrow> (b, i))
      in if i \<notin> set provided_series_ids then
           (case PlaceHolderObject_init reg s i c b of
              Inl e \<Rightarrow> Inl e
            | Inr p \<Rightarrow> append_placeholders reg s c provided_series_ids rest (object_list @ [PH p]))
         else append_placeholders reg s c provided_series_ids rest object_list)"

text \<open>
  \<^verbatim>\<open>fill_object_list\<close>. \<^verbatim>\<open>cls or object_list[0].__class__\<close> subscripts
  \<^verbatim>\<open>object_list\<close> only when \<^verbatim>\<open>cls\<close> is \<^verbatim>\<open>None\<close>. The list is returned as the
  function leaves it; when the function raises, the session is the one at the raise.
\<close>

definition fill_object_list ::
  "registry \<Rightarrow> session \<Rightarrow> obj list option \<Rightarrow> identity list option \<Rightarrow> pyclass option
     \<Rightarrow> (pyerror + obj list) \<times> session" where
  "fill_object_list reg s object_list obj_ids c =
     (case (case c of
              Some c' \<Rightarrow> Inr c'
            | None \<Rightarrow>
                (case object_list of
                   None \<Rightarrow> Inl TypeError
                 | Some [] \<Rightarrow> Inl IndexError
                 | Some (x # _) \<Rightarrow> Inr (class_of x))) of
        Inl e \<Rightarrow> (Inl e, s)
      | Inr c1 \<Rightarrow>
          (case provided_ids reg s (case object_list of None \<Rightarrow> [] | Some l \<Rightarrow> l) of
             (Inl e, s1) \<Rightarrow> (Inl e, s1)
           | (Inr (provided_series_ids, object_list1), s1) \<Rightarrow>
               if obj_ids = None \<or> obj_ids = Some [] then (Inr object_list1, s1)
               else (append_placeholders reg s1 c1 provided_series_ids (the obj_ids) object_list1, s1)))"

section \<open>Serialisation and equality\<close>

text \<open>
  Modelled from the spec: \<^verbatim>\<open>thing_is_close\<close> is imported from \<^verbatim>\<open>ixdat.tools\<close>,
  which is not part of \<^verbatim>\<open>db.py\<close>. The spec, like the comment in \<^verbatim>\<open>__eq__\<close>, has it
  compare floats and numeric arrays with a tolerance and everything else exactly. The
  tolerance test on two floats is the parameter \<open>close\<close>; two arrays are close when
  they have the same length and are close element by element.
\<close>

fun thing_is_close :: "(real \<Rightarrow> real \<Rightarrow> bool) \<Rightarrow> pyval \<Rightarrow> pyval \<Rightarrow> bool" where
  "thing_is_close close (PFloat a) (PFloat b) = close a b"
| "thing_is_close close (PArray xs) (PArray ys) = list_all2 close xs ys"
| "thing_is_close close thing_one thing_two = (thing_one = thing_two)"


text \<open>
  \<^verbatim>\<open>getattr(self, attr)\<close> for the name of a scalar attribute and for the name of a
  list of owned objects; a name the instance does not have raises.
\<close>

definition getattr :: "entity \<Rightarrow> string \<Rightarrow> pyerror + pyval" where
  "getattr self attr =
     (case map_of (attrs self) attr of None \<Rightarrow> Inl AttributeError | Some v \<Rightarrow> Inr v)"

definition getattr_list :: "entity \<Rightarrow> string \<Rightarrow> pyerror + entity list" where
  "getattr_list self attr =
     (case map_of (child_lists self) attr of None \<Rightarrow> Inl AttributeError | Some l \<Rightarrow> Inr l)"

text \<open>
  Reading a class attribute for a test \<^verbatim>\<open>if self.x:\<close> followed by a loop over it:
  \<^verbatim>\<open>None\<close> and the empty collection both skip the loop.
\<close>

fun attr_value :: "'a list class_attribute \<Rightarrow> pyerror + 'a list" where
  "attr_value Undeclared = Inl AttributeError"
| "attr_value DeclaredNone = Inr []"
| "attr_value (Declared l) = Inr l"

text \<open>
  The comprehension \<^verbatim>\<open>{attr: getattr(self, attr) for attr in names if attr not in exclude}\<close>,
  written into the dictionary \<open>acc\<close>; and \<^verbatim>\<open>d.update(**other)\<close>.
\<close>

fun dict_of_attrs ::
  "entity \<Rightarrow> string list \<Rightarrow> string list \<Rightarrow> (string \<times> pyval) list
     \<Rightarrow> pyerror + (string \<times> pyval) list" where
  "dict_of_attrs self [] exclude acc = Inr acc"
| "dict_of_attrs self (attr # rest) exclude acc =
     (if attr \<in> set exclude then dict_of_attrs self rest exclude acc
      else
        (case getattr self attr of
           Inl e \<Rightarrow> Inl e
         | Inr v \<Rightarrow> dict_of_attrs self rest exclude (AList.update attr v acc)))"

definition dict_update ::
  "(string \<times> pyval) list \<Rightarrow> (string \<times> pyval) list \<Rightarrow> (string \<times> pyval) list" where
  "dict_update d other = foldl (\<lambda>acc (k, v). AList.update k v acc) d other"

text \<open>
  \<^verbatim>\<open>get_main_dict\<close> returns the dictionary or the exception, the object and the
  session. When \<^verbatim>\<open>column_attrs\<close> is \<^verbatim>\<open>None\<close>, the message of the
  \<^verbatim>\<open>DataBaseError\<close> formats \<^verbatim>\<open>self\<close>: when that raises, its exception is the one
  that leaves the method; else the format has read \<^verbatim>\<open>self.id\<close>, which gives an
  unsaved object its id, and \<^verbatim>\<open>DataBaseError\<close> is raised.
\<close>

definition get_main_dict ::
  "registry \<Rightarrow> session \<Rightarrow> entity \<Rightarrow> string list
     \<Rightarrow> (pyerror + (string \<times> pyval) list) \<times> entity \<times> session" where
  "get_main_dict reg s self exclude =
     (case column_attrs (cls self) of
        Undeclared \<Rightarrow> (Inl AttributeError, self, s)
      | DeclaredNone \<Rightarrow>
          (case Saveable_repr reg s self of
             (Inl e, self1, s1) \<Rightarrow> (Inl e, self1, s1)
           | (Inr _, self1, s1) \<Rightarrow> (Inl DataBaseError, self1, s1))
      | Declared names \<Rightarrow> (dict_of_attrs self names exclude [], self, s))"

text \<open>
  Modelled from the spec: \<^verbatim>\<open>save\<close> of a backend is code of the backends, which is
  not in \<^verbatim>\<open>db.py\<close>. The spec has the first save assign or keep the primary key and
  set the backend of the object to the backend that saves, and return the id; the
  docstring of \<^verbatim>\<open>Saveable.save\<close> says the same. An object without a true \<^verbatim>\<open>_id\<close>
  gets the next id of the backend for its table.
\<close>

definition backend_save :: "session \<Rightarrow> backend \<Rightarrow> entity \<Rightarrow> int \<times> entity \<times> session" where
  "backend_save s b obj =
     (let (i, s1) =
            (if priv_id obj \<noteq> None \<and> priv_id obj \<noteq> Some 0 then (the (priv_id obj), s)
             else get_next_available_id s b (class_table_name (cls obj)))
      in (i, set_priv_backend (set_priv_id obj (Some i)) (Some (BackendObj b)), s1))"

text \<open>
  The inner loop of the first statement of \<^verbatim>\<open>as_dict\<close>, over one list of owned
  objects: \<^verbatim>\<open>child_obj.backend\<close> is read (and stored when it was false), and an object
  whose backend is \<^verbatim>\<open>database_backends["none"]\<close> is saved by
  \<^verbatim>\<open>database_backends["memory"]\<close>. The objects are changed in place: the function
  returns the list of the objects as the loop leaves them, also when it raises.
\<close>

fun save_unsaved ::
  "registry \<Rightarrow> session \<Rightarrow> entity list \<Rightarrow> (pyerror + unit) \<times> entity list \<times> session" where
  "save_unsaved reg s [] = (Inr (), [], s)"
| "save_unsaved reg s (child_obj # rest) =
     (case Saveable_backend reg child_obj of
        (Inl e, child1) \<Rightarrow> (Inl e, child1 # rest, s)
      | (Inr b, child1) \<Rightarrow>
          (case database_backends reg ''none'' of
             None \<Rightarrow> (Inl KeyError, child1 # rest, s)
           | Some nb \<Rightarrow>
               if (case b of BackendObj x \<Rightarrow> ident x = ident nb | BackendStr x \<Rightarrow> False) then
                 (case database_backends reg ''memory'' of
                    None \<Rightarrow> (Inl KeyError, child1 # rest, s)
                  | Some mb \<Rightarrow>
                      (let (i, child2, s1) = backend_save s mb child1;
                           (r, rest1, s2) = save_unsaved reg s1 rest
                       in (r, child2 # rest1, s2)))
               else
                 (let (r, rest1, s2) = save_unsaved reg s rest
                  in (r, child1 # rest1, s2))))"

text \<open>
  The object whose list of owned objects under a name holds the objects as a loop left
  them; and the outer loop over \<^verbatim>\<open>child_attrs\<close>.
\<close>

definition set_child_list :: "entity \<Rightarrow> string \<Rightarrow> entity list \<Rightarrow> entity" where
  "set_child_list self attr l =
     Entity (oid self) (cls self) (priv_backend self) (priv_id self) (attrs self)
       (AList.update attr l (child_lists self))"

fun save_child_lists ::
  "registry \<Rightarrow> session \<Rightarrow> entity \<Rightarrow> string list \<Rightarrow> (pyerror + unit) \<times> entity \<times> session" where
  "save_child_lists reg s self [] = (Inr (), self, s)"
| "save_child_lists reg s self (child_object_list_name # rest) =
     (case getattr_list self child_object_list_name of
        Inl e \<Rightarrow> (Inl e, self, s)
      | Inr child_objs \<Rightarrow>
          (case save_unsaved reg s child_objs of
             (Inl e, child_objs1, s1) \<Rightarrow>
               (Inl e, set_child_list self child_object_list_name child_objs1, s1)
           | (Inr _, child_objs1, s1) \<Rightarrow>
               save_child_lists reg s1
                 (set_child_list self child_object_list_name child_objs1) rest))"

fun aux_tables_dict ::
  "entity \<Rightarrow> (string \<times> string list) list \<Rightarrow> string list
     \<Rightarrow> pyerror + (string \<times> pyval) list list" where
  "aux_tables_dict self [] exclude = Inr []"
| "aux_tables_dict self ((tn, extras) # rest) exclude =
     (case dict_of_attrs self extras exclude [] of
        Inl e \<Rightarrow> Inl e
      | Inr aux_dict \<Rightarrow>
          (case aux_tables_dict self rest exclude of
             Inl e \<Rightarrow> Inl e
           | Inr ds \<Rightarrow> Inr (aux_dict # ds)))"

fun linker_tables_dict ::
  "entity \<Rightarrow> (string \<times> string \<times> string) list \<Rightarrow> string list
     \<Rightarrow> pyerror + (string \<times> pyval) list list" where
  "linker_tables_dict self [] exclude = Inr []"
| "linker_tables_dict self ((tn, linked_table_name, attr) # rest) exclude =
     (if attr \<in> set exclude then linker_tables_dict self rest exclude
      else
        (case getattr self attr of
           Inl e \<Rightarrow> Inl e
         | Inr v \<Rightarrow>
             (case linker_tables_dict self rest exclude of
                Inl e \<Rightarrow> Inl e
              | Inr ds \<Rightarrow> Inr ([(attr, v)] # ds))))"

text \<open>
  \<^verbatim>\<open>as_dict\<close> returns the dictionary or the exception, the object with its owned
  objects as the method leaves them, and the session. After the dictionary of the main
  table the method only reads.
\<close>

definition as_dict ::
  "registry \<Rightarrow> session \<Rightarrow> entity \<Rightarrow> string list
     \<Rightarrow> (pyerror + (string \<times> pyval) list) \<times> entity \<times> session" where
  "as_dict reg s self exclude =
     (case attr_value (child_attrs (cls self)) of
        Inl e \<Rightarrow> (Inl e, self, s)
      | Inr names \<Rightarrow>
     (case save_child_lists reg s self names of
        (Inl e, self1, s1) \<Rightarrow> (Inl e, self1, s1)
      | (Inr _, self1, s1) \<Rightarrow>
     (case get_main_dict reg s1 self1 exclude of
        (Inl e, self2, s2) \<Rightarrow> (Inl e, self2, s2)
      | (Inr self_as_dict, self2, s2) \<Rightarrow>
     ((case attr_value (extra_column_attrs (cls self2)) of
         Inl e \<Rightarrow> Inl e
       | Inr extra \<Rightarrow>
      (case aux_tables_dict self2 extra exclude of
         Inl e \<Rightarrow> Inl e
       | Inr aux \<Rightarrow>
      (case attr_value (extra_linkers (cls self2)) of
         Inl e \<Rightarrow> Inl e
       | Inr linkers \<Rightarrow>
      (case linker_tables_dict self2 linkers exclude of
         Inl e \<Rightarrow> Inl e
       | Inr linked \<Rightarrow>
           Inr (foldl dict_update (foldl dict_update self_as_dict aux) linked))))),
      self2, s2))))"

text \<open>
  The names under which \<^verbatim>\<open>as_dict()\<close> writes a value: the column attributes, the
  attributes of every auxiliary table, and the attribute of every linker.
\<close>

definition as_dict_keys ::
  "string list \<Rightarrow> (string \<times> string list) list \<Rightarrow> (string \<times> string \<times> string) list
     \<Rightarrow> string set" where
  "as_dict_keys names extra linkers =
     set names \<union> (\<Union>(tn, extras) \<in> set extra. set extras) \<union>
     (\<lambda>(tn, linked_table_name, attr). attr) ` set linkers"

text \<open>
  The loop of \<^verbatim>\<open>__eq__\<close> over the keys of \<^verbatim>\<open>self_as_dict\<close>, \<open>True\<close> when it runs
  to its end. The statement under \<^verbatim>\<open>if key in linker_id_names:\<close> is \<^verbatim>\<open>pass\<close>.
\<close>

fun compare_items ::
  "(real \<Rightarrow> real \<Rightarrow> bool) \<Rightarrow> string list \<Rightarrow> (string \<times> pyval) list
     \<Rightarrow> (string \<times> pyval) list \<Rightarrow> bool" where
  "compare_items close linker_id_names [] other_as_dict = True"
| "compare_items close linker_id_names ((key, v) # rest) other_as_dict =
     (case map_of other_as_dict key of
        None \<Rightarrow> False
      | Some v' \<Rightarrow>
          (let pass = (if key \<in> set linker_id_names then () else ()) in
           if \<not> thing_is_close close v v' then False
           else compare_items close linker_id_names rest other_as_dict))"

text \<open>
  None of the methods above adds or removes an owned object: the size of an object,
  which counts the objects it owns at every depth, stays what it was.
\<close>

lemma getattr_list_size: "getattr_list self attr = Inr l \<Longrightarrow> size_list size l < size self"
proof -
  have le: "map_of xs attr = Some l \<Longrightarrow>
      size_list size l \<le> size_list (size_prod (\<lambda>_. 0) (size_list size)) xs"
    for xs :: "(string \<times> entity list) list"
    by (induction xs) (auto split: if_splits)
  assume "getattr_list self attr = Inr l"
  then have "map_of (child_lists self) attr = Some l"
    by (auto simp: getattr_list_def split: option.splits)
  from le [OF this] show ?thesis by (cases self) simp
qed

lemma Saveable_backend_size: "Saveable_backend reg e = (r, e1) \<Longrightarrow> size e1 = size e"
  by (cases e) (auto simp: Saveable_backend_def set_priv_backend_def split: if_splits option.splits)

lemma backend_save_size: "backend_save s b e = (i, e1, s1) \<Longrightarrow> size e1 = size e"
  by (cases e)
     (auto simp: backend_save_def set_priv_backend_def set_priv_id_def Let_def
           split: if_splits prod.splits)

lemma Saveable_id_size: "Saveable_id reg s e = (r, e1, s1) \<Longrightarrow> size e1 = size e"
  by (cases e)
     (auto simp: Saveable_id_def Saveable_backend_def set_priv_backend_def set_priv_id_def Let_def
           split: if_splits option.splits prod.splits sum.splits backend_val.splits)

lemma save_unsaved_size:
  "save_unsaved reg s xs = (r, ys, s1) \<Longrightarrow> size_list size ys = size_list size xs"
proof (induction xs arbitrary: r ys s s1)
  case Nil
  then show ?case by simp
next
  case (Cons x xs)
  then show ?case
    by (auto split: prod.splits sum.splits option.splits if_splits
             dest!: Saveable_backend_size backend_save_size)
qed

lemma set_child_list_size:
  "getattr_list self attr = Inr xs \<Longrightarrow> size_list size ys = size_list size xs \<Longrightarrow>
   size (set_child_list self attr ys) = size self"
proof -
  have upd: "map_of al attr = Some xs \<Longrightarrow> size_list size ys = size_list size xs \<Longrightarrow>
      size_list (size_prod (\<lambda>_. 0) (size_list size)) (AList.update attr ys al) =
      size_list (size_prod (\<lambda>_. 0) (size_list size)) al"
    for al :: "(string \<times> entity list) list"
    by (induction al) (auto split: if_splits)
  assume "getattr_list self attr = Inr xs" and ys: "size_list size ys = size_list size xs"
  then have "map_of (child_lists self) attr = Some xs"
    by (auto simp: getattr_list_def split: option.splits)
  from upd [OF this ys] show ?thesis
    by (cases self) (simp add: set_child_list_def)
qed

lemma save_child_lists_size:
  "save_child_lists reg s self names = (r, self1, s1) \<Longrightarrow> size self1 = size self"
proof (induction names arbitrary: s self)
  case Nil
  then show ?case by simp
next
  case (Cons n names)
  show ?case
  proof (cases "getattr_list self n")
    case (Inl e)
    with Cons.prems show ?thesis by simp
  next
    case (Inr xs)
    obtain r' ys s' where saved: "save_unsaved reg s xs = (r', ys, s')"
      by (cases "save_unsaved reg s xs") auto
    have same: "size (set_child_list self n ys) = size self"
      by (rule set_child_list_size [OF Inr save_unsaved_size [OF saved]])
    show ?thesis
    proof (cases r')
      case (Inl e)
      with Cons.prems Inr saved same show ?thesis by simp
    next
      case Inr': (Inr u)
      with Cons.prems Inr saved
      have "save_child_lists reg s' (set_child_list self n ys) names = (r, self1, s1)"
        by simp
      from Cons.IH [OF this] same show ?thesis by simp
    qed
  qed
qed

lemma as_dict_size: "as_dict reg s self exclude = (r, self1, s1) \<Longrightarrow> size self1 = size self"
  by (auto simp: as_dict_def get_main_dict_def Saveable_repr_def
           split: sum.splits prod.splits class_attribute.splits
           dest!: save_child_lists_size Saveable_id_size)

text \<open>
  \<^verbatim>\<open>Saveable.__eq__\<close>, with its loop over \<^verbatim>\<open>child_attrs\<close> (\<open>eq_child_attrs\<close>) and
  its loop over \<^verbatim>\<open>zip(object_list, other_object_list)\<close> (\<open>eq_zip\<close>), which stops at
  the end of the shorter list. \<^verbatim>\<open>object != other_object\<close> is the negation of
  \<^verbatim>\<open>__eq__\<close>. A loop returns \<open>Inr False\<close> where the source returns \<^verbatim>\<open>False\<close>, and
  \<open>Inr True\<close> where it runs to its end.

  \<^verbatim>\<open>__eq__\<close> is modelled by the truth value it returns or the exception it raises.
  The session goes from \<^verbatim>\<open>self.as_dict()\<close> to \<^verbatim>\<open>other.as_dict()\<close>, and the loops
  over the owned objects run on the two objects and the session as the two calls leave
  them. What the comparison of two owned objects does to them and to the session is not
  passed on to the next comparison, which reads other objects.
\<close>

function (sequential)
  Saveable_eq ::
    "(real \<Rightarrow> real \<Rightarrow> bool) \<Rightarrow> registry \<Rightarrow> session \<Rightarrow> entity \<Rightarrow> entity \<Rightarrow> pyerror + bool"
  and eq_child_attrs ::
    "(real \<Rightarrow> real \<Rightarrow> bool) \<Rightarrow> registry \<Rightarrow> session \<Rightarrow> string list \<Rightarrow> entity \<Rightarrow> entity
       \<Rightarrow> pyerror + bool"
  and eq_zip ::
    "(real \<Rightarrow> real \<Rightarrow> bool) \<Rightarrow> registry \<Rightarrow> session \<Rightarrow> entity list \<Rightarrow> entity list
       \<Rightarrow> pyerror + bool" where
  "Saveable_eq close reg s self other =
     (if oid self = oid other then Inr True
      else if cls self \<noteq> cls other then Inr False
      else
     (case as_dict reg s self [] of
        (Inl e, self1, s1) \<Rightarrow> Inl e
      | (Inr self_as_dict, self1, s1) \<Rightarrow>
     (case as_dict reg s1 other [] of
        (Inl e, other1, s2) \<Rightarrow> Inl e
      | (Inr other_as_dict, other1, s2) \<Rightarrow>
          if length self_as_dict \<noteq> length other_as_dict then Inr False
          else
     (case attr_value (extra_linkers (cls self1)) of
        Inl e \<Rightarrow> Inl e
      | Inr linkers \<Rightarrow>
          (let linker_id_names = map (\<lambda>(linker_table_name, linked_table_name, id_name). id_name) linkers
           in if \<not> compare_items close linker_id_names self_as_dict other_as_dict then Inr False
              else
     (case attr_value (child_attrs (cls self1)) of
        Inl e \<Rightarrow> Inl e
      | Inr names \<Rightarrow> eq_child_attrs close reg s2 names self1 other1))))))"
| "eq_child_attrs close reg s [] self other = Inr True"
| "eq_child_attrs close reg s (object_list_name # rest) self other =
     (case getattr_list self object_list_name of
        Inl e \<Rightarrow> Inl e
      | Inr object_list \<Rightarrow>
          (case getattr_list other object_list_name of
             Inl e \<Rightarrow> Inl e
           | Inr other_object_list \<Rightarrow>
               (case eq_zip close reg s object_list other_object_list of
                  Inl e \<Rightarrow> Inl e
                | Inr False \<Rightarrow> Inr False
                | Inr True \<Rightarrow> eq_child_attrs close reg s rest self other)))"
| "eq_zip close reg s (object # object_list) (other_object # other_object_list) =
     (case Saveable_eq close reg s object other_object of
        Inl e \<Rightarrow> Inl e
      | Inr b \<Rightarrow> if \<not> b then Inr False else eq_zip close reg s object_list other_object_list)"
| "eq_zip close reg s object_list other_object_list = Inr True"
  by pat_completeness auto
termination
  by (relation "measures
       [\<lambda>x. case x of
               Inl (close, reg, s, self, other) \<Rightarrow> 3 * size self + 2
             | Inr (Inl (close, reg, s, names, self, other)) \<Rightarrow> 3 * size self + 1
             | Inr (Inr (close, reg, s, xs, ys)) \<Rightarrow> 3 * size_list size xs,
        \<lambda>x. case x of
               Inl (close, reg, s, self, other) \<Rightarrow> 0
             | Inr (Inl (close, reg, s, names, self, other)) \<Rightarrow> length names
             | Inr (Inr (close, reg, s, xs, ys)) \<Rightarrow> 0]")
     (auto dest: getattr_list_size as_dict_size [OF sym])

text \<open>
  The equation of \<^verbatim>\<open>__eq__\<close> is unfolded where a proof asks for it.
\<close>

declare Saveable_eq.simps [simp del]

text \<open>
  The placeholder that \<^verbatim>\<open>fill_object_list\<close> builds for a bare id: it carries the
  active backend. An element of the list whose \<^verbatim>\<open>id\<close> can be read without assigning
  one: a placeholder, or a Saveable object with a true \<^verbatim>\<open>_id\<close>.
\<close>

definition placeholder :: "session \<Rightarrow> pyclass \<Rightarrow> int \<Rightarrow> obj" where
  "placeholder s c i = PH \<lparr>ph_id = i, ph_cls = c, ph_backend = BackendObj (backend (DB s))\<rparr>"

fun has_id :: "obj \<Rightarrow> bool" where
  "has_id (Ent e) = (priv_id e \<noteq> None \<and> priv_id e \<noteq> Some 0)"
| "has_id (PH p) = True"

section \<open>Example values\<close>

text \<open>
  A registry with the three instances that \<^verbatim>\<open>db.py\<close> looks up by name
  (\<^verbatim>\<open>"none"\<close>, \<^verbatim>\<open>"memory"\<close>, \<^verbatim>\<open>"directory"\<close>), a class under each of these names,
  and one more instance registered under the name \<^verbatim>\<open>"archive"\<close>, a second directory.
  A backend class builds a new object on every call.
\<close>

definition none_backend :: backend where
  "none_backend = \<lparr>ident = 0, b_name = ''none'', backend_type = ''none'', address = ''none''\<rparr>"

definition memory_backend :: backend where
  "memory_backend =
     \<lparr>ident = 1, b_name = ''memory'', backend_type = ''memory'', address = ''memory''\<rparr>"

definition directory_backend :: backend where
  "directory_backend =
     \<lparr>ident = 2, b_name = ''directory'', backend_type = ''directory'', address = ''ixdat''\<rparr>"

definition archive_backend :: backend where
  "archive_backend =
     \<lparr>ident = 3, b_name = ''archive'', backend_type = ''directory'', address = ''archive''\<rparr>"

definition example_registry :: registry where
  "example_registry =
     \<lparr>database_backends =
        [''none'' \<mapsto> none_backend, ''memory'' \<mapsto> memory_backend,
         ''directory'' \<mapsto> directory_backend, ''archive'' \<mapsto> archive_backend],
      BACKEND_CLASSES =
        [''none'' \<mapsto> (\<lambda>kw. none_backend\<lparr>ident := 10\<rparr>),
         ''memory'' \<mapsto> (\<lambda>kw. memory_backend\<lparr>ident := 11\<rparr>),
         ''directory'' \<mapsto> (\<lambda>kw. directory_backend\<lparr>ident := 12\<rparr>)]\<rparr>"

definition example_DB :: DataBase where
  "example_DB = \<lparr>backend = directory_backend, new_object_backend = ''none''\<rparr>"

text \<open>A backend whose \<^verbatim>\<open>get\<close> finds nothing and raises, and one that returns a value.\<close>

definition failing_get :: "nat backend_get" where
  "failing_get b c i db = (Inl (BackendFailure ''no such object''), db)"

definition working_get :: "nat backend_get" where
  "working_get b c i db = (Inr (nat i), db)"

text \<open>
  A session on the directory backend in which nothing has been counted or printed, the
  same session with the registered \<^verbatim>\<open>"none"\<close> backend made active, a class of
  Saveable objects without owned objects, and three of its instances: one new and
  unsaved (on the registered \<^verbatim>\<open>"none"\<close> backend, where the setter called by
  \<^verbatim>\<open>__init__\<close> puts it, and without id), one loaded from the directory backend with
  id 2, and one that belongs to the directory backend and was never given an id.
\<close>

definition example_session :: session where
  "example_session = \<lparr>DB = example_DB, last_id = (\<lambda>k. 0), printed = []\<rparr>"

definition DataSeries :: entity_class where
  "DataSeries =
     \<lparr>class_name = ''DataSeries'', class_table_name = Some ''data_series'',
      column_attrs = Declared [''name'', ''unit_name''], extra_column_attrs = DeclaredNone,
      extra_linkers = DeclaredNone, child_attrs = DeclaredNone\<rparr>"

definition fresh_series :: entity where
  "fresh_series = Entity 100 DataSeries (Some (BackendObj none_backend)) None
     [(''name'', PStr ''t''), (''unit_name'', PStr ''s'')] []"

definition saved_series :: entity where
  "saved_series = Entity 101 DataSeries (Some (BackendObj directory_backend)) (Some 2)
     [(''name'', PStr ''U''), (''unit_name'', PStr ''V'')] []"

definition orphan_series :: entity where
  "orphan_series = Entity 102 DataSeries (Some (BackendObj directory_backend)) None
     [(''name'', PStr ''J''), (''unit_name'', PStr ''mA'')] []"

definition session_on_none :: session where
  "session_on_none = example_session\<lparr>DB := example_DB\<lparr>backend := none_backend\<rparr>\<rparr>"

text \<open>
  A class with two scalar columns, the linker \<^verbatim>\<open>measurement_series\<close> whose ids are
  the attribute \<^verbatim>\<open>s_ids\<close>, and the owned list \<^verbatim>\<open>series_list\<close>; its instances, and
  instances of the class of the owned objects.
\<close>

definition Measurement :: entity_class where
  "Measurement =
     \<lparr>class_name = ''Measurement'', class_table_name = Some ''measurement'',
      column_attrs = Declared [''name'', ''technique''], extra_column_attrs = DeclaredNone,
      extra_linkers = Declared [(''measurement_series'', ''data_series'', ''s_ids'')],
      child_attrs = Declared [''series_list'']\<rparr>"

definition series :: "nat \<Rightarrow> string \<Rightarrow> string \<Rightarrow> entity" where
  "series i n u =
     Entity i DataSeries (Some (BackendObj none_backend)) None
       [(''name'', PStr n), (''unit_name'', PStr u)] []"

definition measurement :: "nat \<Rightarrow> string \<Rightarrow> int list \<Rightarrow> entity list \<Rightarrow> entity" where
  "measurement i n s_ids series_list =
     Entity i Measurement (Some (BackendObj none_backend)) None
       [(''name'', PStr n), (''technique'', PStr ''EC''), (''s_ids'', PList (map PInt s_ids))]
       [(''series_list'', series_list)]"

definition t_series :: "nat \<Rightarrow> entity" where
  "t_series i = series i ''t'' ''s''"

definition U_series :: "nat \<Rightarrow> entity" where
  "U_series i = series i ''U'' ''V''"

text \<open>
  A tolerance test on two floats; a class with two scalar columns, one of them a float,
  an auxiliary table with the column \<^verbatim>\<open>ec_technique\<close>, the linker
  \<^verbatim>\<open>measurement_series\<close> and the owned list \<^verbatim>\<open>series_list\<close>; and its
  instances, new and unsaved.
\<close>

definition tolerance :: "real \<Rightarrow> real \<Rightarrow> bool" where
  "tolerance a b = (\<bar>a - b\<bar> \<le> 1 / 100000000)"

definition ECMeasurement :: entity_class where
  "ECMeasurement =
     \<lparr>class_name = ''ECMeasurement'', class_table_name = Some ''measurement'',
      column_attrs = Declared [''name'', ''tstamp''],
      extra_column_attrs = Declared [(''ec_measurement'', [''ec_technique''])],
      extra_linkers = Declared [(''measurement_series'', ''data_series'', ''s_ids'')],
      child_attrs = Declared [''series_list'']\<rparr>"

definition ec_measurement :: "nat \<Rightarrow> string \<Rightarrow> real \<Rightarrow> string \<Rightarrow> entity list \<Rightarrow> entity" where
  "ec_measurement i n t tech series_list =
     Entity i ECMeasurement (Some (BackendObj none_backend)) None
       [(''name'', PStr n), (''tstamp'', PFloat t), (''ec_technique'', PStr tech),
        (''s_ids'', PList [])]
       [(''series_list'', series_list)]"

section \<open>Properties of the facade\<close>

text \<open>
  C4, as amended. \<^verbatim>\<open>DataBase.set_backend\<close> looks a string up in \<^verbatim>\<open>BACKEND_CLASSES\<close>
  only. For a string that is not the name of a registered backend class it raises
  \<^verbatim>\<open>NotImplementedError\<close> (the exception the code has for the spec's configuration
  error) and leaves the active backend as it was; for the name of a registered class it
  builds a backend of that class from the keyword arguments, makes it the active backend
  and returns it. A backend passed as an object becomes the active backend and is
  returned.
\<close>

theorem set_backend_by_class_name:
  "(BACKEND_CLASSES reg s = None \<longrightarrow>
      set_backend reg db (BackendStr s) kw = (Inl NotImplementedError, db)) \<and>
   (\<forall>BackendClass. BACKEND_CLASSES reg s = Some BackendClass \<longrightarrow>
      set_backend reg db (BackendStr s) kw =
        (Inr (BackendClass kw), db\<lparr>backend := BackendClass kw\<rparr>)) \<and>
   set_backend reg db (BackendObj b) kw = (Inr b, db\<lparr>backend := b\<rparr>)"
  by (simp add: set_backend_def Let_def)

theorem set_backend_by_class_name_witness:
  "set_backend example_registry example_DB (BackendStr ''sql'') [] =
     (Inl NotImplementedError, example_DB) \<and>
   set_backend example_registry example_DB (BackendStr ''memory'') [] =
     (Inr (memory_backend\<lparr>ident := 11\<rparr>),
      example_DB\<lparr>backend := memory_backend\<lparr>ident := 11\<rparr>\<rparr>)"
  using set_backend_by_class_name [of example_registry "''sql''" example_DB "[]"]
    set_backend_by_class_name [of example_registry "''memory''" example_DB "[]"]
  by (simp add: example_registry_def)

text \<open>
  The claim C4 as stated fails: \<^verbatim>\<open>"archive"\<close> is the name of a registered backend
  instance, and \<^verbatim>\<open>set_backend("archive")\<close> raises and switches nothing.
\<close>

theorem set_backend_instance_name_counterexample:
  "database_backends example_registry ''archive'' = Some archive_backend \<and>
   set_backend example_registry example_DB (BackendStr ''archive'') [] =
     (Inl NotImplementedError, example_DB)"
  by (simp add: set_backend_def example_registry_def)

text \<open>
  C1, as amended. When \<^verbatim>\<open>T.get(i, backend=b)\<close> returns, the active backend is the one
  from before the call. When \<^verbatim>\<open>b\<close> is a non-empty string that names no backend
  class, the switch raises \<^verbatim>\<open>NotImplementedError\<close> and nothing has changed. When the
  switch is done (the requested backend \<^verbatim>\<open>x\<close> is active) and the backend's \<^verbatim>\<open>get\<close>
  raises, the exception leaves \<^verbatim>\<open>Saveable.get\<close> at once and the switch back is not
  run: the facade is as the backend's \<^verbatim>\<open>get\<close> left it, so \<^verbatim>\<open>x\<close> is still active
  unless that \<^verbatim>\<open>get\<close> itself changed the active backend.
\<close>

theorem Saveable_get_active_backend:
  "(Saveable_get reg bget db c i b = (Inr obj, db1) \<longrightarrow> backend db1 = backend db) \<and>
   (b = Some (BackendStr s) \<and> s \<noteq> [] \<and> BACKEND_CLASSES reg s = None \<longrightarrow>
      Saveable_get reg bget db c i b = (Inl NotImplementedError, db)) \<and>
   (set_backend reg db (if truthy b then the b else BackendObj (backend db)) [] = (Inr x, db1) \<and>
    bget x c i db1 = (Inl e, db2) \<longrightarrow>
      backend db1 = x \<and> Saveable_get reg bget db c i b = (Inl e, db2) \<and>
      (backend db2 = backend db1 \<longrightarrow> backend (snd (Saveable_get reg bget db c i b)) = x))"
  by (auto simp: Saveable_get_def set_backend_def DataBase_get_def Let_def
      split: prod.splits sum.splits backend_val.splits option.splits)

theorem Saveable_get_active_backend_witness:
  "Saveable_get example_registry working_get example_DB ''Measurement'' 1
       (Some (BackendObj memory_backend)) = (Inr 1, example_DB) \<and>
   Saveable_get example_registry working_get example_DB ''Measurement'' 1
       (Some (BackendStr ''sql'')) = (Inl NotImplementedError, example_DB) \<and>
   Saveable_get example_registry failing_get example_DB ''Measurement'' 1
       (Some (BackendObj memory_backend)) =
     (Inl (BackendFailure ''no such object''), example_DB\<lparr>backend := memory_backend\<rparr>) \<and>
   backend (snd (Saveable_get example_registry failing_get example_DB ''Measurement'' 1
       (Some (BackendObj memory_backend)))) = memory_backend"
proof -
  note get = Saveable_get_active_backend
  have ret: "Saveable_get example_registry working_get example_DB ''Measurement'' 1
       (Some (BackendObj memory_backend)) = (Inr 1, example_DB)"
    by (simp add: Saveable_get_def set_backend_def DataBase_get_def working_get_def example_DB_def)
  have same: "backend example_DB = backend example_DB"
    by (rule get [THEN conjunct1, THEN mp, OF ret])
  have unknown: "Saveable_get example_registry working_get example_DB ''Measurement'' 1
       (Some (BackendStr ''sql'')) = (Inl NotImplementedError, example_DB)"
    by (rule get [where s = "''sql''", THEN conjunct2, THEN conjunct1, THEN mp])
       (simp add: example_registry_def)
  have raised: "Saveable_get example_registry failing_get example_DB ''Measurement'' 1
       (Some (BackendObj memory_backend)) =
     (Inl (BackendFailure ''no such object''), example_DB\<lparr>backend := memory_backend\<rparr>)"
    by (rule get [where x = memory_backend and ?db1.0 = "example_DB\<lparr>backend := memory_backend\<rparr>",
          THEN conjunct2, THEN conjunct2, THEN mp, THEN conjunct2, THEN conjunct1])
       (simp add: failing_get_def set_backend_def)
  have stays: "backend (snd (Saveable_get example_registry failing_get example_DB ''Measurement'' 1
       (Some (BackendObj memory_backend)))) = memory_backend"
    by (rule get [where x = memory_backend and ?db1.0 = "example_DB\<lparr>backend := memory_backend\<rparr>"
            and ?db2.0 = "example_DB\<lparr>backend := memory_backend\<rparr>"
            and e = "BackendFailure ''no such object''",
          THEN conjunct2, THEN conjunct2, THEN mp, THEN conjunct2, THEN conjunct2, THEN mp])
       (simp_all add: failing_get_def set_backend_def)
  from ret same unknown raised stays show ?thesis by blast
qed

text \<open>
  The claim C1 as stated fails: the directory backend is active, the memory backend is
  requested, its \<^verbatim>\<open>get\<close> raises, and afterwards the memory backend is the active one.
\<close>

theorem Saveable_get_raise_counterexample:
  "backend example_DB = directory_backend \<and>
   Saveable_get example_registry failing_get example_DB ''Measurement'' 1
       (Some (BackendObj memory_backend)) =
     (Inl (BackendFailure ''no such object''), example_DB\<lparr>backend := memory_backend\<rparr>) \<and>
   backend (example_DB\<lparr>backend := memory_backend\<rparr>) \<noteq> backend example_DB"
  by (simp add: Saveable_get_def set_backend_def DataBase_get_def failing_get_def
      example_DB_def memory_backend_def directory_backend_def)

text \<open>
  C2, as amended. \<^verbatim>\<open>with_memory(f)\<close> runs \<^verbatim>\<open>f\<close> with new objects routed to
  \<^verbatim>\<open>"memory"\<close>. When \<^verbatim>\<open>f\<close> returns, the routing is set to \<^verbatim>\<open>"none"\<close> and the value
  of \<^verbatim>\<open>f\<close> is returned. When \<^verbatim>\<open>f\<close> raises, the exception leaves the wrapper at once
  and the routing stays as \<^verbatim>\<open>f\<close> left it.
\<close>

theorem with_memory_routing:
  "(\<forall>v db1. function (db\<lparr>new_object_backend := ''memory''\<rparr>) = (Inr v, db1) \<longrightarrow>
      with_memory function db = (Inr v, db1\<lparr>new_object_backend := ''none''\<rparr>)) \<and>
   (\<forall>e db1. function (db\<lparr>new_object_backend := ''memory''\<rparr>) = (Inl e, db1) \<longrightarrow>
      with_memory function db = (Inl e, db1))"
  by (simp add: with_memory_def)

theorem with_memory_routing_witness:
  "with_memory (\<lambda>db. (Inr (new_object_backend db), db)) example_DB =
     (Inr ''memory'', example_DB\<lparr>new_object_backend := ''none''\<rparr>) \<and>
   with_memory (\<lambda>db. (Inl ValueError :: pyerror + string, db)) example_DB =
     (Inl ValueError, example_DB\<lparr>new_object_backend := ''memory''\<rparr>)"
  using with_memory_routing [of "\<lambda>db. (Inr (new_object_backend db), db)" example_DB]
    with_memory_routing [of "\<lambda>db. (Inl ValueError :: pyerror + string, db)" example_DB]
  by simp

text \<open>
  The claim C2 as stated fails: after a wrapped function that raises and does not touch
  the routing, the routing is \<^verbatim>\<open>"memory"\<close>, not \<^verbatim>\<open>"none"\<close>.
\<close>

theorem with_memory_raise_counterexample:
  "new_object_backend example_DB = ''none'' \<and>
   new_object_backend
     (snd (with_memory (\<lambda>db. (Inl ValueError :: pyerror + string, db)) example_DB)) = ''memory''"
  by (simp add: with_memory_def example_DB_def)

section \<open>Properties of the column merge\<close>

text \<open>
  C3, as amended. With \<^verbatim>\<open>Parent\<close> (table \<^verbatim>\<open>"parent"\<close>, one column) and
  \<^verbatim>\<open>Child(Parent)\<close> (table \<^verbatim>\<open>"child"\<close>, owned object list \<^verbatim>\<open>"items"\<close>) declared, and
  the body of \<^verbatim>\<open>Child\<close> saying \<^verbatim>\<open>columns = []\<close>: both classes pass the checks of the
  metaclass, the column resolution order of \<^verbatim>\<open>Child\<close> is \<^verbatim>\<open>Parent\<close>, \<^verbatim>\<open>Child\<close>,
  \<^verbatim>\<open>Child.get_full_columns()\<close> returns the columns of \<^verbatim>\<open>Parent\<close>, and
  \<^verbatim>\<open>Child.get_full_owned_object_lists()\<close> returns the descriptor of \<^verbatim>\<open>"items"\<close> once.
\<close>

theorem Child_full_columns:
  "SaveableMetaClass_new Map.empty ''Parent'' (Parent (Column_init ''name'' t None None)) =
     Inr [''Parent'' \<mapsto> Parent (Column_init ''name'' t None None)] \<and>
   SaveableMetaClass_new [''Parent'' \<mapsto> Parent (Column_init ''name'' t None None)]
       ''Child'' (Child (Some [])) =
     Inr (scenario (Column_init ''name'' t None None) (Some [])) \<and>
   columns (scenario (Column_init ''name'' t None None) (Some [])) ''Parent'' =
     [Column_init ''name'' t None None] \<and>
   get_column_resolution_order (scenario (Column_init ''name'' t None None) (Some [])) ''Child'' =
     [''Parent'', ''Child''] \<and>
   get_full_columns (scenario (Column_init ''name'' t None None) (Some [])) ''Child'' =
     Inr [Column_init ''name'' t None None] \<and>
   get_full_owned_object_lists (scenario (Column_init ''name'' t None None) (Some [])) ''Child'' =
     Inr [items]"
  by (simp add: SaveableMetaClass_new_def get_full_columns_def get_full_owned_object_lists_def
      get_column_resolution_order_def scenario_def mro_of_def Parent_def Child_def
      issubclass_def table_name_def columns_def owned_object_lists_def Column_init_def)

text \<open>
  The claim C3 as stated fails for a \<^verbatim>\<open>Child\<close> whose body declares no \<^verbatim>\<open>columns\<close>
  at all: the class passes the checks of the metaclass, \<^verbatim>\<open>Child.columns\<close> is then the
  list inherited from \<^verbatim>\<open>Parent\<close>, and the merge meets the attribute \<^verbatim>\<open>name\<close> a
  second time and raises \<^verbatim>\<open>ValueError\<close>.
\<close>

theorem Child_full_columns_counterexample:
  "SaveableMetaClass_new [''Parent'' \<mapsto> Parent (Column_init ''name'' ''str'' None None)]
       ''Child'' (Child None) =
     Inr (scenario (Column_init ''name'' ''str'' None None) None) \<and>
   columns (scenario (Column_init ''name'' ''str'' None None) None) ''Child'' =
     [Column_init ''name'' ''str'' None None] \<and>
   get_full_columns (scenario (Column_init ''name'' ''str'' None None) None) ''Child'' =
     Inl ValueError"
  by (simp add: SaveableMetaClass_new_def get_full_columns_def
      get_column_resolution_order_def scenario_def mro_of_def Parent_def Child_def
      issubclass_def table_name_def columns_def refers_to_included_def column_names_def
      Column_init_def)

section \<open>Properties of identity and backend assignment\<close>

lemma set_priv_simps [simp]:
  "oid (set_priv_backend e b) = oid e" "cls (set_priv_backend e b) = cls e"
  "priv_backend (set_priv_backend e b) = b" "priv_id (set_priv_backend e b) = priv_id e"
  "attrs (set_priv_backend e b) = attrs e" "child_lists (set_priv_backend e b) = child_lists e"
  "oid (set_priv_id e i) = oid e" "cls (set_priv_id e i) = cls e"
  "priv_backend (set_priv_id e i) = priv_backend e" "priv_id (set_priv_id e i) = i"
  "attrs (set_priv_id e i) = attrs e" "child_lists (set_priv_id e i) = child_lists e"
  by (simp_all add: set_priv_backend_def set_priv_id_def)

lemma Saveable_backend_cls: "Saveable_backend reg e = (r, e1) \<Longrightarrow> cls e1 = cls e \<and> priv_id e1 = priv_id e"
  by (auto simp: Saveable_backend_def split: if_splits option.splits)

text \<open>
  C8. An object with no id (\<^verbatim>\<open>_id\<close> is \<^verbatim>\<open>None\<close>) whose backend is an object of
  type \<^verbatim>\<open>"none"\<close> or \<^verbatim>\<open>"memory"\<close>: the first read of \<^verbatim>\<open>id\<close> asks that backend
  for the next id of the object's table once (the backend's count for the table goes up
  by one), stores the id and returns it; a second read, and any later read in whatever
  state the session is then, returns the same id and changes nothing.
\<close>

theorem Saveable_id_assigned_once:
  "priv_id e = None \<and> Saveable_backend reg e = (Inr (BackendObj b), e1) \<and>
   (backend_type b = ''none'' \<or> backend_type b = ''memory'') \<longrightarrow>
   (let i = int (Suc (last_id s (ident b, class_table_name (cls e))));
        e2 = set_priv_id e1 (Some i);
        s1 = s\<lparr>last_id := (last_id s)((ident b, class_table_name (cls e)) := Suc (last_id s (ident b, class_table_name (cls e))))\<rparr>
    in Saveable_id reg s e = (Inr i, e2, s1) \<and> Saveable_id reg s1 e2 = (Inr i, e2, s1) \<and>
       Saveable_id reg s' e2 = (Inr i, e2, s'))"
  by (auto simp: Saveable_id_def get_next_available_id_def Let_def dest: Saveable_backend_cls)

theorem Saveable_id_assigned_once_witness:
  "Saveable_id example_registry example_session fresh_series =
     (Inr 1, Entity 100 DataSeries (Some (BackendObj none_backend)) (Some 1)
               [(''name'', PStr ''t''), (''unit_name'', PStr ''s'')] [],
      example_session\<lparr>last_id := (\<lambda>k. 0)((0, Some ''data_series'') := 1)\<rparr>) \<and>
   Saveable_id example_registry
       (example_session\<lparr>last_id := (\<lambda>k. 0)((0, Some ''data_series'') := 1)\<rparr>)
       (Entity 100 DataSeries (Some (BackendObj none_backend)) (Some 1)
               [(''name'', PStr ''t''), (''unit_name'', PStr ''s'')] []) =
     (Inr 1, Entity 100 DataSeries (Some (BackendObj none_backend)) (Some 1)
               [(''name'', PStr ''t''), (''unit_name'', PStr ''s'')] [],
      example_session\<lparr>last_id := (\<lambda>k. 0)((0, Some ''data_series'') := 1)\<rparr>)"
proof -
  have pre: "priv_id fresh_series = None \<and>
      Saveable_backend example_registry fresh_series = (Inr (BackendObj none_backend), fresh_series) \<and>
      (backend_type none_backend = ''none'' \<or> backend_type none_backend = ''memory'')"
    by (simp add: fresh_series_def Saveable_backend_def none_backend_def)
  have vals: "ident none_backend = 0" "class_table_name (cls fresh_series) = Some ''data_series''"
    "last_id example_session = (\<lambda>k. 0)"
    "set_priv_id fresh_series (Some 1) =
       Entity 100 DataSeries (Some (BackendObj none_backend)) (Some 1)
               [(''name'', PStr ''t''), (''unit_name'', PStr ''s'')] []"
    by (simp_all add: none_backend_def fresh_series_def DataSeries_def example_session_def
        set_priv_id_def set_priv_backend_def)
  from Saveable_id_assigned_once [where s = example_session and s' = example_session,
      THEN mp, OF pre]
  show ?thesis by (simp add: Let_def vals)
qed

text \<open>
  C9, as amended. For a non-empty string that is a key of neither table, and an object
  whose \<^verbatim>\<open>id\<close> can be read (the warning formats the object, which reads its
  \<^verbatim>\<open>id\<close>): the setter does not raise, prints the warning and stores the string
  itself, and a later read of \<^verbatim>\<open>backend\<close> returns that string. When reading the
  \<^verbatim>\<open>id\<close> raises (\<^verbatim>\<open>RecursionError\<close> for an object that has no id and belongs
  to a backend of another type), the setter raises the same exception and stores
  nothing.
\<close>

theorem backend_setter_unrecognized:
  "(x \<noteq> [] \<and> database_backends reg x = None \<and> BACKEND_CLASSES reg x = None \<and>
    Saveable_id reg s self = (Inr i, self1, s1) \<longrightarrow>
      Saveable_backend_setter reg s self (Some (BackendStr x)) =
        (Inr (), set_priv_backend self1 (Some (BackendStr x)), s1\<lparr>printed := printed s1 @ [x]\<rparr>) \<and>
      Saveable_backend reg (set_priv_backend self1 (Some (BackendStr x))) =
        (Inr (BackendStr x), set_priv_backend self1 (Some (BackendStr x)))) \<and>
   (x \<noteq> [] \<and> database_backends reg x = None \<and> BACKEND_CLASSES reg x = None \<and>
    Saveable_id reg s self = (Inl e, self1, s1) \<longrightarrow>
      Saveable_backend_setter reg s self (Some (BackendStr x)) = (Inl e, self1, s1))"
  by (simp add: Saveable_backend_setter_def Saveable_repr_def Saveable_backend_def)

theorem backend_setter_unrecognized_witness:
  "Saveable_backend_setter example_registry example_session saved_series (Some (BackendStr ''sql'')) =
     (Inr (), set_priv_backend saved_series (Some (BackendStr ''sql'')),
      example_session\<lparr>printed := [''sql'']\<rparr>) \<and>
   Saveable_backend example_registry (set_priv_backend saved_series (Some (BackendStr ''sql''))) =
     (Inr (BackendStr ''sql''), set_priv_backend saved_series (Some (BackendStr ''sql''))) \<and>
   Saveable_backend_setter example_registry example_session orphan_series (Some (BackendStr ''sql'')) =
     (Inl RecursionError, orphan_series, example_session)"
proof -
  note setter = backend_setter_unrecognized
  have unknown: "database_backends example_registry ''sql'' = None"
    "BACKEND_CLASSES example_registry ''sql'' = None"
    by (simp_all add: example_registry_def)
  have saved: "Saveable_id example_registry example_session saved_series =
      (Inr 2, saved_series, example_session)"
    by (simp add: Saveable_id_def saved_series_def)
  have orphan: "Saveable_id example_registry example_session orphan_series =
      (Inl RecursionError, orphan_series, example_session)"
    by (simp add: Saveable_id_def Saveable_backend_def orphan_series_def directory_backend_def)
  have p: "printed example_session = []"
    by (simp add: example_session_def)
  from setter [where x = "''sql''", THEN conjunct1, THEN mp, OF conjI [OF _ conjI [OF unknown(1) conjI [OF unknown(2) saved]]]]
  have ok: "Saveable_backend_setter example_registry example_session saved_series (Some (BackendStr ''sql'')) =
        (Inr (), set_priv_backend saved_series (Some (BackendStr ''sql'')),
         example_session\<lparr>printed := printed example_session @ [''sql'']\<rparr>) \<and>
      Saveable_backend example_registry (set_priv_backend saved_series (Some (BackendStr ''sql''))) =
        (Inr (BackendStr ''sql''), set_priv_backend saved_series (Some (BackendStr ''sql'')))"
    by simp
  from setter [where x = "''sql''", THEN conjunct2, THEN mp, OF conjI [OF _ conjI [OF unknown(1) conjI [OF unknown(2) orphan]]]]
  have raised: "Saveable_backend_setter example_registry example_session orphan_series (Some (BackendStr ''sql'')) =
     (Inl RecursionError, orphan_series, example_session)"
    by simp
  from ok raised show ?thesis by (simp add: p)
qed

text \<open>
  The claim C9 as stated fails for the empty string, which is a key of neither table:
  \<^verbatim>\<open>new_backend or DB.new_object_backend\<close> replaces it by \<^verbatim>\<open>"none"\<close>, and the
  setter stores the registered \<^verbatim>\<open>"none"\<close> backend and prints nothing.
\<close>

theorem backend_setter_empty_string_counterexample:
  "database_backends example_registry [] = None \<and> BACKEND_CLASSES example_registry [] = None \<and>
   Saveable_backend_setter example_registry example_session saved_series (Some (BackendStr [])) =
     (Inr (), set_priv_backend saved_series (Some (BackendObj none_backend)), example_session) \<and>
   Some (BackendObj none_backend) \<noteq> Some (BackendStr [])"
  by (simp add: Saveable_backend_setter_def example_registry_def example_session_def
      example_DB_def)

section \<open>Properties of fill_object_list\<close>

lemma PlaceHolderObject_init_active:
  "database_backends reg ''none'' = Some nb \<Longrightarrow> ident (backend (DB s)) \<noteq> ident nb \<Longrightarrow>
   PlaceHolderObject_init reg s i c (Some (BackendObj (backend (DB s)))) =
     Inr \<lparr>ph_id = i, ph_cls = c, ph_backend = BackendObj (backend (DB s))\<rparr>"
  by (simp add: PlaceHolderObject_init_def)

text \<open>
  C6, as amended. When the active backend is not the registered \<^verbatim>\<open>"none"\<close> backend,
  \<^verbatim>\<open>fill_object_list([], [1, 2, 3], cls=T)\<close> returns three placeholders for \<^verbatim>\<open>T\<close>
  with the ids 1, 2, 3, each carrying the active backend, and
  \<^verbatim>\<open>fill_object_list([e], [1, 2, 3], cls=T)\<close> for an object \<^verbatim>\<open>e\<close> with id 2 returns
  \<^verbatim>\<open>e\<close> as it was, followed by placeholders for 1 and 3. Nothing else changes.
\<close>

theorem fill_object_list_placeholders:
  "database_backends reg ''none'' = Some nb \<and> ident (backend (DB s)) \<noteq> ident nb \<longrightarrow>
     fill_object_list reg s (Some []) (Some [IdInt 1, IdInt 2, IdInt 3]) (Some T) =
       (Inr [placeholder s T 1, placeholder s T 2, placeholder s T 3], s) \<and>
     (priv_id e = Some 2 \<longrightarrow>
        fill_object_list reg s (Some [Ent e]) (Some [IdInt 1, IdInt 2, IdInt 3]) (Some T) =
          (Inr [Ent e, placeholder s T 1, placeholder s T 3], s))"
  by (simp add: fill_object_list_def PlaceHolderObject_init_active placeholder_def
      Saveable_id_def)

theorem fill_object_list_placeholders_witness:
  "fill_object_list example_registry example_session (Some [])
       (Some [IdInt 1, IdInt 2, IdInt 3]) (Some (SaveableClass DataSeries)) =
     (Inr [placeholder example_session (SaveableClass DataSeries) 1,
           placeholder example_session (SaveableClass DataSeries) 2,
           placeholder example_session (SaveableClass DataSeries) 3], example_session) \<and>
   fill_object_list example_registry example_session (Some [Ent saved_series])
       (Some [IdInt 1, IdInt 2, IdInt 3]) (Some (SaveableClass DataSeries)) =
     (Inr [Ent saved_series, placeholder example_session (SaveableClass DataSeries) 1,
           placeholder example_session (SaveableClass DataSeries) 3], example_session)"
proof -
  have pre: "database_backends example_registry ''none'' = Some none_backend \<and>
      ident (backend (DB example_session)) \<noteq> ident none_backend"
    by (simp add: example_registry_def example_session_def example_DB_def none_backend_def
        directory_backend_def)
  have two: "priv_id saved_series = Some 2"
    by (simp add: saved_series_def)
  from fill_object_list_placeholders [where e = saved_series, THEN mp, OF pre] two
  show ?thesis by blast
qed

text \<open>
  The claim C6 as stated fails when the registered \<^verbatim>\<open>"none"\<close> backend is the active
  one: \<^verbatim>\<open>PlaceHolderObject.__init__\<close> refuses it, and \<^verbatim>\<open>fill_object_list\<close> raises
  \<^verbatim>\<open>DataBaseError\<close>.
\<close>

theorem fill_object_list_none_backend_counterexample:
  "backend (DB session_on_none) = none_backend \<and>
   fill_object_list example_registry session_on_none (Some [])
       (Some [IdInt 1, IdInt 2, IdInt 3]) (Some (SaveableClass DataSeries)) =
     (Inl DataBaseError, session_on_none)"
  by (simp add: fill_object_list_def PlaceHolderObject_init_def session_on_none_def
      example_session_def example_registry_def)

lemma provided_ids_has_id:
  "list_all has_id l \<Longrightarrow> \<exists>ids. provided_ids reg s l = (Inr (ids, l), s)"
proof (induction l)
  case Nil
  then show ?case by simp
next
  case (Cons x l)
  then obtain ids where "provided_ids reg s l = (Inr (ids, l), s)"
    by auto
  with Cons.prems show ?case
    by (cases x) (auto simp: Saveable_id_def)
qed

text \<open>
  C10, as amended. For a non-empty \<^verbatim>\<open>object_list\<close> in which every Saveable object
  already has an id, and \<^verbatim>\<open>obj_ids\<close> \<^verbatim>\<open>None\<close> or empty: \<^verbatim>\<open>fill_object_list\<close> returns
  the list as it was given, whatever \<^verbatim>\<open>cls\<close> is, and the session is unchanged.
\<close>

theorem fill_object_list_no_ids:
  "object_list \<noteq> [] \<and> (obj_ids = None \<or> obj_ids = Some []) \<and> list_all has_id object_list \<longrightarrow>
     fill_object_list reg s (Some object_list) obj_ids c = (Inr object_list, s)"
proof (intro impI, elim conjE)
  assume ne: "object_list \<noteq> []" and no: "obj_ids = None \<or> obj_ids = Some []"
    and ids: "list_all has_id object_list"
  from provided_ids_has_id [OF ids] obtain l where
    "provided_ids reg s object_list = (Inr (l, object_list), s)"
    by blast
  with ne no show "fill_object_list reg s (Some object_list) obj_ids c = (Inr object_list, s)"
    by (cases object_list; cases c) (auto simp: fill_object_list_def)
qed

theorem fill_object_list_no_ids_witness:
  "fill_object_list example_registry example_session
       (Some [Ent saved_series, placeholder example_session (SaveableClass DataSeries) 1]) None None =
     (Inr [Ent saved_series, placeholder example_session (SaveableClass DataSeries) 1], example_session) \<and>
   fill_object_list example_registry example_session
       (Some [Ent saved_series, placeholder example_session (SaveableClass DataSeries) 1]) (Some []) None =
     (Inr [Ent saved_series, placeholder example_session (SaveableClass DataSeries) 1], example_session)"
proof -
  have pre: "list_all has_id [Ent saved_series, placeholder example_session (SaveableClass DataSeries) 1]"
    by (simp add: saved_series_def placeholder_def)
  from fill_object_list_no_ids [where obj_ids = None, THEN mp]
    fill_object_list_no_ids [where obj_ids = "Some []", THEN mp] pre
  show ?thesis by blast
qed

text \<open>
  The claim C10 as stated fails: \<^verbatim>\<open>[s.id for s in object_list]\<close> runs before
  \<^verbatim>\<open>obj_ids\<close> is looked at. With \<^verbatim>\<open>obj_ids = None\<close>, a new unsaved object in the
  list is given the id 1, and the count of the \<^verbatim>\<open>"none"\<close> backend goes up; an object
  of the directory backend without an id makes the call raise \<^verbatim>\<open>RecursionError\<close>.
\<close>

theorem fill_object_list_reads_ids_counterexample:
  "fill_object_list example_registry example_session (Some [Ent fresh_series]) None None =
     (Inr [Ent (set_priv_id fresh_series (Some 1))],
      example_session\<lparr>last_id := (\<lambda>k. 0)((0, Some ''data_series'') := 1)\<rparr>) \<and>
   set_priv_id fresh_series (Some 1) \<noteq> fresh_series \<and>
   fill_object_list example_registry example_session (Some [Ent orphan_series]) None None =
     (Inl RecursionError, example_session)"
  by (simp add: fill_object_list_def Saveable_id_def Saveable_backend_def
      get_next_available_id_def fresh_series_def orphan_series_def example_registry_def
      example_session_def none_backend_def directory_backend_def DataSeries_def
      set_priv_id_def set_priv_backend_def)

section \<open>Properties of equality\<close>



















text \<open>
  The first loop of \<^verbatim>\<open>as_dict\<close> changes \<^verbatim>\<open>_backend\<close> and \<^verbatim>\<open>_id\<close> of owned
  objects only: the class and the attributes of the object stay, and so do the names of
  its lists.
\<close>

lemma set_child_list_sel [simp]:
  "oid (set_child_list self n l) = oid self" "cls (set_child_list self n l) = cls self"
  "attrs (set_child_list self n l) = attrs self"
  "priv_backend (set_child_list self n l) = priv_backend self"
  "priv_id (set_child_list self n l) = priv_id self"
  "child_lists (set_child_list self n l) = AList.update n l (child_lists self)"
  by (simp_all add: set_child_list_def)

















text \<open>
  Two series compare by their names and units, whatever their backends and ids.
\<close>

lemma series_eq:
  "Saveable_eq close reg s
     (Entity i DataSeries b k [(''name'', PStr n), (''unit_name'', PStr u)] [])
     (Entity j DataSeries b' k' [(''name'', PStr n'), (''unit_name'', PStr u')] []) =
   Inr (i = j \<or> n = n' \<and> u = u')"
  by (simp add: Saveable_eq.simps as_dict_def get_main_dict_def DataSeries_def getattr_def
        dict_update_def)

lemmas eq_eval =
  ec_measurement_def ECMeasurement_def measurement_def Measurement_def t_series_def U_series_def
  series_def getattr_def getattr_list_def as_dict_keys_def example_registry_def
  example_session_def none_backend_def memory_backend_def Saveable_backend_def backend_save_def
  get_next_available_id_def set_priv_backend_def set_priv_id_def series_eq tolerance_def
  less_Suc_eq_0_disj






text \<open>
  C5 does not hold of the code. Under \<^verbatim>\<open>if key in linker_id_names:\<close> stands
  \<^verbatim>\<open>pass\<close>, so the loop goes on to compare the values of the linker id columns
  like every other value: two measurements whose dictionaries differ only in
  \<^verbatim>\<open>s_ids\<close> and whose owned series compare equal element by element are not equal,
  whatever the tolerance on floats.
\<close>

theorem Saveable_eq_compares_linker_ids:
  "fst (as_dict example_registry example_session
         (measurement 1 ''m'' [1, 2] [t_series 11, U_series 12]) []) =
     Inr [(''name'', PStr ''m''), (''technique'', PStr ''EC''), (''s_ids'', PList [PInt 1, PInt 2])] \<and>
   fst (as_dict example_registry example_session
         (measurement 2 ''m'' [3, 4] [t_series 21, U_series 22]) []) =
     Inr [(''name'', PStr ''m''), (''technique'', PStr ''EC''), (''s_ids'', PList [PInt 3, PInt 4])] \<and>
   eq_zip close example_registry example_session
     [t_series 11, U_series 12] [t_series 21, U_series 22] = Inr True \<and>
   Saveable_eq close example_registry example_session
     (measurement 1 ''m'' [1, 2] [t_series 11, U_series 12])
     (measurement 2 ''m'' [3, 4] [t_series 21, U_series 22]) = Inr False"
  by (simp add: eq_eval Saveable_eq.simps as_dict_def get_main_dict_def dict_update_def
        DataSeries_def)

end
